theory Spec2Isabelle
  imports Main "HOL-Library.Multiset"
begin

section \<open>Data model\<close>

text \<open>
  The decorators of \<^verbatim>\<open>src/decorators.ts\<close> work on the types of \<^verbatim>\<open>./Model\<close>, which
  is not part of the sources at hand. Only the members that the decorators touch are
  modelled: the event's \<^verbatim>\<open>body\<close> and \<^verbatim>\<open>requestContext.requestId\<close>, a validation's
  \<^verbatim>\<open>schema\<close>, and the three components of a response.
\<close>

record RequestContext =
  requestId :: string

record 'b HTTPEvent =
  body :: 'b
  requestContext :: RequestContext

record 's Validation =
  schema :: 's

text \<open>
  The value of the \<^verbatim>\<open>message\<close> member of the two bodies that the wrapper builds itself:
  the \<^verbatim>\<open>Set<string>\<close> of validation results, or the text of an error. A JavaScript
  \<^verbatim>\<open>Set\<close> keeps its members in insertion order without repetition, so it is a list.
\<close>

datatype MessageValue = MessageSet "string list" | MessageText string

datatype 'p HTTPBody = MessageBody MessageValue | Payload 'p

record 'p HTTPResponse =
  statusCode :: int
  responseBody :: "'p HTTPBody"
  headers :: "string \<rightharpoonup> string"

text \<open>What a \<^verbatim>\<open>catch\<close> receives: an error object with its \<^verbatim>\<open>message\<close>.\<close>

datatype JSError = Error (message: string)

text \<open>The state of a promise, and what calling the decorated method can do.\<close>

datatype 'r Settled = Fulfilled 'r | Rejected JSError | Pending

text \<open>
  \<open>Threw e\<close>: the call raised \<open>e\<close> before it returned anything.
  \<open>Returned p\<close>: the call returned a promise that settles as \<open>p\<close>.
\<close>

datatype 'r Invocation = Threw JSError | Returned "'r Settled"

text \<open>
  What the function installed by \<^verbatim>\<open>endpoint\<close> does: it returns a response object
  directly (the validation path returns no promise), raises, or returns a promise.
\<close>

datatype 'r Outcome = Response 'r | Raised JSError | PromiseOf "'r Settled"

text \<open>
  One run of the installed function: its outcome, the schemas handed to the validation
  handler in call order, and the number of calls of the decorated method.
\<close>

record ('s, 'p) Run =
  outcome :: "'p HTTPResponse Outcome"
  validated :: "'s list"
  invoked :: nat

section \<open>The response class\<close>

text \<open>
  Modelled from the spec: the class \<^verbatim>\<open>HTTPResponse\<close> of \<^verbatim>\<open>./Model\<close> is missing. The
  spec gives a response a status code, a body and a mapping of header names to values.
  The static \<^verbatim>\<open>HTTPResponse.setBody\<close> starts from a new response, which is the parameter
  \<open>fresh\<close> (its initial status and headers are not known); the other methods update one
  component and return the response, as the chained calls of the source require.
\<close>

definition HTTPResponse_setBody :: "'p HTTPResponse \<Rightarrow> 'p HTTPBody \<Rightarrow> 'p HTTPResponse" where
  "HTTPResponse_setBody fresh b = fresh\<lparr>responseBody := b\<rparr>"

definition setStatusCode :: "int \<Rightarrow> 'p HTTPResponse \<Rightarrow> 'p HTTPResponse" where
  "setStatusCode c r = r\<lparr>statusCode := c\<rparr>"

definition addHeader :: "string \<Rightarrow> string \<Rightarrow> 'p HTTPResponse \<Rightarrow> 'p HTTPResponse" where
  "addHeader k v r = r\<lparr>headers := (headers r)(k \<mapsto> v)\<rparr>"

fun addHeaders :: "(string \<times> string) list \<Rightarrow> 'p HTTPResponse \<Rightarrow> 'p HTTPResponse" where
  "addHeaders [] r = r"
| "addHeaders ((k, v) # kvs) r = addHeaders kvs (addHeader k v r)"

section \<open>The function installed by the endpoint decorator\<close>

text \<open>\<^verbatim>\<open>Set.prototype.add\<close> and \<^verbatim>\<open>size\<close> on the list model of a set.\<close>

definition Set_add :: "string list \<Rightarrow> string \<Rightarrow> string list" where
  "Set_add xs x = (if x \<in> set xs then xs else xs @ [x])"

definition Set_size :: "string list \<Rightarrow> nat" where
  "Set_size xs = length xs"

text \<open>
  \<^verbatim>\<open>validations.forEach(validation => validationErrors.add(validate(event.body,
  validation.schema)))\<close>. The validation handler \<^verbatim>\<open>EndpointRouter.validationHandler\<close> is
  not in the sources; its \<^verbatim>\<open>validate\<close> is the parameter \<open>validate\<close>. The state of the loop
  is the set built so far and the log of the schemas validated.
\<close>

fun forEach_validate ::
  "('b \<Rightarrow> 's \<Rightarrow> string) \<Rightarrow> 'b \<Rightarrow> 's Validation list \<Rightarrow> string list \<times> 's list \<Rightarrow> string list \<times> 's list"
where
  "forEach_validate validate b [] st = st"
| "forEach_validate validate b (validation # rest) (validationErrors, calls) =
     forEach_validate validate b rest
       (Set_add validationErrors (validate b (schema validation)), calls @ [schema validation])"

text \<open>
  \<^verbatim>\<open>return targetMethod.apply(this, arguments).then(...).catch(...)\<close>. An exception
  raised by the call itself happens before \<^verbatim>\<open>then\<close> and \<^verbatim>\<open>catch\<close> are attached, and
  the installed function has no \<^verbatim>\<open>try\<close>: it leaves the function.
\<close>

definition invoke_target ::
  "'p HTTPResponse \<Rightarrow> ('b HTTPEvent \<Rightarrow> 'c \<Rightarrow> 's Validation list option \<Rightarrow> 'p HTTPResponse Invocation) \<Rightarrow>
   'b HTTPEvent \<Rightarrow> 'c \<Rightarrow> 's Validation list option \<Rightarrow> 's list \<Rightarrow> ('s, 'p) Run"
where
  "invoke_target fresh targetMethod event context validations calls =
     \<lparr>outcome =
        (case targetMethod event context validations of
           Threw e \<Rightarrow> Raised e
         | Returned p \<Rightarrow>
             PromiseOf
               (case p of
                  Fulfilled response \<Rightarrow>
                    Fulfilled (addHeader ''X-REQUEST-ID'' (requestId (requestContext event)) response)
                | Rejected error \<Rightarrow>
                    Fulfilled
                      (addHeader ''X-REQUEST-ID'' (requestId (requestContext event))
                        (setStatusCode 501
                          (HTTPResponse_setBody fresh (MessageBody (MessageText (message error))))))
                | Pending \<Rightarrow> Pending)),
      validated = calls,
      invoked = 1\<rparr>"

text \<open>
  The function that \<^verbatim>\<open>endpoint\<close> stores in \<^verbatim>\<open>descriptor.value\<close> (lines 83 to 111).
  Its arguments are the event, a second argument that it only passes on, and the
  validations, which may be absent (\<^verbatim>\<open>if (validations)\<close>).
\<close>

definition endpoint_value ::
  "'p HTTPResponse \<Rightarrow> ('b \<Rightarrow> 's \<Rightarrow> string) \<Rightarrow>
   ('b HTTPEvent \<Rightarrow> 'c \<Rightarrow> 's Validation list option \<Rightarrow> 'p HTTPResponse Invocation) \<Rightarrow>
   'b HTTPEvent \<Rightarrow> 'c \<Rightarrow> 's Validation list option \<Rightarrow> ('s, 'p) Run"
where
  "endpoint_value fresh validate targetMethod event context validations =
     (case validations of
        None \<Rightarrow> invoke_target fresh targetMethod event context validations []
      | Some vs \<Rightarrow>
          (case forEach_validate validate (body event) vs ([], []) of
             (validationErrors, calls) \<Rightarrow>
               if Set_size validationErrors \<noteq> 0
               then \<lparr>outcome =
                       Response
                         (addHeader ''X-REQUEST-ID'' (requestId (requestContext event))
                           (setStatusCode 400
                             (HTTPResponse_setBody fresh (MessageBody (MessageSet validationErrors))))),
                     validated = calls,
                     invoked = 0\<rparr>
               else invoke_target fresh targetMethod event context validations calls))"

text \<open>
  The members of the set in the \<^verbatim>\<open>message\<close> of a response that the installed function
  returned directly; no such response, no members.
\<close>

definition message_members :: "'p HTTPResponse Outcome \<Rightarrow> string set" where
  "message_members out =
     (case out of
        Response r \<Rightarrow> (case responseBody r of MessageBody (MessageSet xs) \<Rightarrow> set xs | _ \<Rightarrow> {})
      | _ \<Rightarrow> {})"

section \<open>The CORS decorator\<close>

text \<open>
  The first argument of \<^verbatim>\<open>cors\<close> is a string or a function of the event and the
  response (\<^verbatim>\<open>typeof allowedOrigin === 'string'\<close>).
\<close>

datatype ('b, 'p) AllowedOriginArg =
  OriginString string
| OriginFunction "'b HTTPEvent \<Rightarrow> 'p HTTPResponse \<Rightarrow> string"

text \<open>\<^verbatim>\<open>Array.prototype.join\<close> on an array of strings.\<close>

fun join :: "string \<Rightarrow> string list \<Rightarrow> string" where
  "join sep [] = []"
| "join sep [x] = x"
| "join sep (x # y # ys) = x @ sep @ join sep (y # ys)"

text \<open>
  The callback given to \<^verbatim>\<open>then\<close> (lines 48 to 60). The optional parameters
  \<^verbatim>\<open>allowedActions\<close> and \<^verbatim>\<open>allowedHeaders\<close> are options; \<^verbatim>\<open>allowedHeaders\<close> is an
  object, given as the list of its properties in the order of \<^verbatim>\<open>Object.keys\<close>.
\<close>

definition cors_then ::
  "('b, 'p) AllowedOriginArg \<Rightarrow> string list option \<Rightarrow> (string \<times> string) list option \<Rightarrow> bool \<Rightarrow>
   'b HTTPEvent \<Rightarrow> 'p HTTPResponse \<Rightarrow> 'p HTTPResponse"
where
  "cors_then allowedOrigin allowedActions allowedHeaders allowCredentials event response =
     (let origin = (case allowedOrigin of
                      OriginString s \<Rightarrow> s
                    | OriginFunction f \<Rightarrow> f event response);
          r1 = addHeaders
                 [(''Access-Control-Allow-Origin'', origin),
                  (''Access-Control-Allow-Credentials'', if allowCredentials then ''true'' else ''false'')]
                 response;
          r2 = (case allowedActions of
                  Some actions \<Rightarrow> addHeader ''Access-Control-Allow-Methods'' (join '', '' actions) r1
                | None \<Rightarrow> r1);
          r3 = (case allowedHeaders of
                  Some hs \<Rightarrow> addHeader ''Access-Control-Allow-Headers'' (join '', '' (map fst hs)) r2
                | None \<Rightarrow> r2)
      in r3)"

text \<open>
  The function that \<^verbatim>\<open>cors\<close> stores in \<^verbatim>\<open>descriptor.value\<close>. The parameter
  \<^verbatim>\<open>allowCredentials\<close> has the default \<^verbatim>\<open>true\<close>. There is a \<^verbatim>\<open>then\<close> and no
  \<^verbatim>\<open>catch\<close>: a rejection stays a rejection.
\<close>

definition cors_value ::
  "('b, 'p) AllowedOriginArg \<Rightarrow> string list option \<Rightarrow> (string \<times> string) list option \<Rightarrow> bool option \<Rightarrow>
   ('b HTTPEvent \<Rightarrow> 'c \<Rightarrow> 'v \<Rightarrow> 'p HTTPResponse Invocation) \<Rightarrow>
   'b HTTPEvent \<Rightarrow> 'c \<Rightarrow> 'v \<Rightarrow> 'p HTTPResponse Invocation"
where
  "cors_value allowedOrigin allowedActions allowedHeaders allowCredentials targetMethod event context validations =
     (case targetMethod event context validations of
        Threw e \<Rightarrow> Threw e
      | Returned p \<Rightarrow>
          Returned
            (case p of
               Fulfilled response \<Rightarrow>
                 Fulfilled
                   (cors_then allowedOrigin allowedActions allowedHeaders
                      (case allowCredentials of None \<Rightarrow> True | Some b \<Rightarrow> b) event response)
             | Rejected e \<Rightarrow> Rejected e
             | Pending \<Rightarrow> Pending))"

section \<open>Registration\<close>

text \<open>
  A property descriptor; only \<^verbatim>\<open>value\<close> is read or written, its other attributes are
  the extension part of the record.
\<close>

record 'f PropertyDescriptor =
  "value" :: 'f

text \<open>
  An action is a string, here the list of its Unicode code points.
  \<^verbatim>\<open>String.prototype.toUpperCase\<close> replaces every code point of the string by its
  uppercase mapping in the Unicode character database, which is one code point or
  several, and puts the results together. The database is not part of the sources: the
  mapping is the parameter \<open>upper\<close>.
\<close>

definition toUpperCase :: "(nat \<Rightarrow> nat list) \<Rightarrow> nat list \<Rightarrow> nat list" where
  "toUpperCase upper s = concat (map upper s)"

text \<open>
  What is known of the database without having it: on ASCII (code points below 128) the
  uppercase mapping turns \<^verbatim>\<open>a\<close> to \<^verbatim>\<open>z\<close> into \<^verbatim>\<open>A\<close> to \<^verbatim>\<open>Z\<close>, the lowercase
  mapping does the reverse, and both leave every other ASCII character alone.
\<close>

definition ascii_upper :: "nat \<Rightarrow> nat" where
  "ascii_upper c = (if 97 \<le> c \<and> c \<le> 122 then c - 32 else c)"

definition ascii_lower :: "nat \<Rightarrow> nat" where
  "ascii_lower c = (if 65 \<le> c \<and> c \<le> 90 then c + 32 else c)"

definition is_ASCII :: "nat list \<Rightarrow> bool" where
  "is_ASCII s = list_all (\<lambda>c. c < 128) s"

definition ASCII_upper_mapping :: "(nat \<Rightarrow> nat list) \<Rightarrow> bool" where
  "ASCII_upper_mapping upper = list_all (\<lambda>c. upper c = [ascii_upper c]) [0..<128]"

definition ASCII_lower_mapping :: "(nat \<Rightarrow> nat list) \<Rightarrow> bool" where
  "ASCII_lower_mapping lower = list_all (\<lambda>c. lower c = [ascii_lower c]) [0..<128]"

text \<open>
  Upper-casing a second time changes nothing on the characters of \<open>s\<close>: the uppercase
  mapping of each of them is its own upper-cased form.
\<close>

definition upper_stable :: "(nat \<Rightarrow> nat list) \<Rightarrow> nat list \<Rightarrow> bool" where
  "upper_stable upper s = list_all (\<lambda>c. toUpperCase upper (upper c) = upper c) s"

text \<open>
  Two strings that differ at most in the case of their letters: they have the same
  length, and the code points at each position have the same lowercase mapping \<open>lower\<close>
  of the database.
\<close>

definition differ_only_in_case :: "(nat \<Rightarrow> nat list) \<Rightarrow> nat list \<Rightarrow> nat list \<Rightarrow> bool" where
  "differ_only_in_case lower a b = list_all2 (\<lambda>c d. lower c = lower d) a b"

text \<open>The code points of a string of ASCII characters.\<close>

definition codePoints :: "string \<Rightarrow> nat list" where
  "codePoints s = map of_char s"

text \<open>The arguments of one call of \<^verbatim>\<open>EndpointRouter.register\<close>, in their order.\<close>

record ('f, 'd, 'k) EndpointRoute =
  route_path :: string
  route_action :: "nat list"
  route_endpoint :: 'f
  route_descriptor :: 'd
  route_condition :: "'k option"
  route_priority :: "int option"

text \<open>
  Modelled from the spec: \<^verbatim>\<open>EndpointRouter.register\<close> is missing. The spec has it
  append to the registry, never overwriting and never removing duplicates.
\<close>

definition EndpointRouter_register ::
  "string \<Rightarrow> nat list \<Rightarrow> 'f \<Rightarrow> 'd \<Rightarrow> 'k option \<Rightarrow> int option \<Rightarrow>
   ('f, 'd, 'k) EndpointRoute list \<Rightarrow> ('f, 'd, 'k) EndpointRoute list"
where
  "EndpointRouter_register p a f d condition priority routes =
     routes @ [\<lparr>route_path = p, route_action = a, route_endpoint = f, route_descriptor = d,
                route_condition = condition, route_priority = priority\<rparr>]"

text \<open>
  The decorator \<^verbatim>\<open>endpoint(path, action, condition, priority)\<close> applied to
  \<^verbatim>\<open>(target, propertyKey, descriptor)\<close>. \<^verbatim>\<open>HTTPAction | string\<close> only type-checks
  against the two \<^verbatim>\<open>toUpperCase\<close> calls if the enumeration's members are strings, so an
  action is a string and \<^verbatim>\<open>typeof action === 'string'\<close> holds. The parameters
  \<open>fresh\<close>, \<open>validate\<close> and \<open>upper\<close> stand for what the sources do not hold (the new
  response, the validation handler, the uppercase mapping). The result is the descriptor
  returned and the registry after the call.
\<close>

definition endpoint ::
  "'p HTTPResponse \<Rightarrow> ('b \<Rightarrow> 's \<Rightarrow> string) \<Rightarrow> (nat \<Rightarrow> nat list) \<Rightarrow>
   string \<Rightarrow> nat list \<Rightarrow> 'k option \<Rightarrow> int option \<Rightarrow> 't \<Rightarrow> string \<Rightarrow>
   (('b HTTPEvent \<Rightarrow> 'c \<Rightarrow> 's Validation list option \<Rightarrow> 'p HTTPResponse Invocation), 'z) PropertyDescriptor_scheme \<Rightarrow>
   (('b HTTPEvent \<Rightarrow> 'c \<Rightarrow> 's Validation list option \<Rightarrow> ('s, 'p) Run),
    (('b HTTPEvent \<Rightarrow> 'c \<Rightarrow> 's Validation list option \<Rightarrow> ('s, 'p) Run), 'z) PropertyDescriptor_scheme,
    'k) EndpointRoute list \<Rightarrow>
   (('b HTTPEvent \<Rightarrow> 'c \<Rightarrow> 's Validation list option \<Rightarrow> ('s, 'p) Run), 'z) PropertyDescriptor_scheme \<times>
   (('b HTTPEvent \<Rightarrow> 'c \<Rightarrow> 's Validation list option \<Rightarrow> ('s, 'p) Run),
    (('b HTTPEvent \<Rightarrow> 'c \<Rightarrow> 's Validation list option \<Rightarrow> ('s, 'p) Run), 'z) PropertyDescriptor_scheme,
    'k) EndpointRoute list"
where
  "endpoint fresh validate upper path action condition priority target propertyKey descriptor routes =
     (let targetMethod = value descriptor;
          descriptor' = \<lparr>value = endpoint_value fresh validate targetMethod,
                         \<dots> = PropertyDescriptor.more descriptor\<rparr>;
          routeAction = toUpperCase upper action
      in (descriptor',
          EndpointRouter_register path (toUpperCase upper routeAction) (value descriptor') descriptor'
            condition priority routes))"

text \<open>The decorator \<^verbatim>\<open>cors(...)\<close> applied to \<^verbatim>\<open>(target, propertyKey, descriptor)\<close>.\<close>

definition cors ::
  "('b, 'p) AllowedOriginArg \<Rightarrow> string list option \<Rightarrow> (string \<times> string) list option \<Rightarrow> bool option \<Rightarrow>
   't \<Rightarrow> string \<Rightarrow>
   (('b HTTPEvent \<Rightarrow> 'c \<Rightarrow> 'v \<Rightarrow> 'p HTTPResponse Invocation), 'z) PropertyDescriptor_scheme \<Rightarrow>
   (('b HTTPEvent \<Rightarrow> 'c \<Rightarrow> 'v \<Rightarrow> 'p HTTPResponse Invocation), 'z) PropertyDescriptor_scheme"
where
  "cors allowedOrigin allowedActions allowedHeaders allowCredentials target propertyKey descriptor =
     descriptor\<lparr>value :=
       cors_value allowedOrigin allowedActions allowedHeaders allowCredentials (value descriptor)\<rparr>"

subsection \<open>The xdelete decorator\<close>

text \<open>
  Modelled from the spec: the enumeration \<^verbatim>\<open>HttpAction\<close> of \<^verbatim>\<open>../model/HttpAction\<close> is
  missing; the spec lists these actions.
\<close>

datatype HttpAction = GET | POST | PUT | DELETE | PATCH

text \<open>The object literal handed to \<^verbatim>\<open>Router.register\<close>.\<close>

record ('z, 'f) Route =
  path :: string
  clazz :: 'z
  action :: HttpAction
  functionName :: string
  functionValue :: 'f

text \<open>The decorated class's prototype: \<^verbatim>\<open>target.constructor\<close> is the class.\<close>

record 'z DecoratorTarget =
  "constructor" :: 'z

text \<open>
  Modelled from the spec: \<^verbatim>\<open>Router.register\<close> of \<^verbatim>\<open>../services/Router\<close> is missing.
  The spec has registration append to the registry.
\<close>

definition Router_register :: "('z, 'f) Route \<Rightarrow> ('z, 'f) Route list \<Rightarrow> ('z, 'f) Route list" where
  "Router_register route routes = routes @ [route]"

text \<open>
  \<^verbatim>\<open>xdelete(path)\<close> applied to \<^verbatim>\<open>(target, propertyKey, descriptor)\<close>: the descriptor
  returned and the registry after the call.
\<close>

definition xdelete ::
  "string \<Rightarrow> ('z, 'y) DecoratorTarget_scheme \<Rightarrow> string \<Rightarrow> ('f, 'x) PropertyDescriptor_scheme \<Rightarrow>
   ('z, 'f) Route list \<Rightarrow> ('f, 'x) PropertyDescriptor_scheme \<times> ('z, 'f) Route list"
where
  "xdelete p target propertyKey descriptor routes =
     (descriptor,
      Router_register
        \<lparr>path = p, clazz = constructor target, action = DELETE, functionName = propertyKey,
         functionValue = value descriptor\<rparr>
        routes)"

section \<open>The redacted decorator\<close>

definition METADATA_KEY :: string where
  "METADATA_KEY = ''__MU-TS''"

definition REDACTED_KEY :: string where
  "REDACTED_KEY = ''redacted''"

text \<open>
  The value of a property of the metadata object: a reference to an array of strings, a
  value that \<^verbatim>\<open>||\<close> replaces (\<^verbatim>\<open>null\<close>, \<^verbatim>\<open>false\<close>, \<^verbatim>\<open>0\<close>, the empty string), or
  any other value, which has no \<^verbatim>\<open>push\<close>.
\<close>

datatype 'a MetaValue = ArrayRef nat | Falsy | Truthy 'a

type_synonym 'a Metadata = "string \<rightharpoonup> 'a MetaValue"

datatype TypeError = NotAFunction string

text \<open>
  Objects and arrays are mutable and shared, so they live in a heap, at addresses.
  \<^item> \<open>ancestors\<close>: the prototype chain above a target, nearest first (a prototype chain is
    finite);
  \<^item> \<open>own_metadata\<close>: the entries that the library \<^verbatim>\<open>reflect-metadata\<close> keeps, by
    metadata key and target, each the address of a metadata object;
  \<^item> \<open>objects\<close> and \<open>arrays\<close>: the properties of the object and the elements of the array
    at an address;
  \<^item> \<open>next_object\<close> and \<open>next_array\<close>: the addresses that the next \<^verbatim>\<open>{}\<close> and \<^verbatim>\<open>[]\<close>
    get.
\<close>

record ('t, 'a) Heap =
  ancestors :: "'t \<Rightarrow> 't list"
  own_metadata :: "string \<times> 't \<rightharpoonup> nat"
  objects :: "nat \<Rightarrow> 'a Metadata"
  arrays :: "nat \<Rightarrow> string list"
  next_object :: nat
  next_array :: nat

text \<open>
  \<^verbatim>\<open>Reflect.getMetadata\<close> returns the target's own entry when it has one and asks the
  prototype otherwise, up the chain; \<^verbatim>\<open>Reflect.defineMetadata\<close> writes the target's own
  entry.
\<close>

fun OrdinaryGetMetadata :: "string \<Rightarrow> (string \<times> 't \<rightharpoonup> nat) \<Rightarrow> 't list \<Rightarrow> nat option" where
  "OrdinaryGetMetadata k own [] = None"
| "OrdinaryGetMetadata k own (obj # chain) =
     (case own (k, obj) of
        Some v \<Rightarrow> Some v
      | None \<Rightarrow> OrdinaryGetMetadata k own chain)"

definition Reflect_getMetadata :: "string \<Rightarrow> 't \<Rightarrow> ('t, 'a) Heap \<Rightarrow> nat option" where
  "Reflect_getMetadata k target h = OrdinaryGetMetadata k (own_metadata h) (target # ancestors h target)"

definition Reflect_defineMetadata :: "string \<Rightarrow> nat \<Rightarrow> 't \<Rightarrow> ('t, 'a) Heap \<Rightarrow> ('t, 'a) Heap" where
  "Reflect_defineMetadata k v target h = h\<lparr>own_metadata := (own_metadata h)((k, target) \<mapsto> v)\<rparr>"

text \<open>The literals \<^verbatim>\<open>{}\<close> and \<^verbatim>\<open>[]\<close>: a new empty object, a new empty array.\<close>

definition new_object :: "('t, 'a) Heap \<Rightarrow> nat \<times> ('t, 'a) Heap" where
  "new_object h =
     (next_object h,
      h\<lparr>objects := (objects h)(next_object h := Map.empty), next_object := Suc (next_object h)\<rparr>)"

definition new_array :: "('t, 'a) Heap \<Rightarrow> nat \<times> ('t, 'a) Heap" where
  "new_array h =
     (next_array h,
      h\<lparr>arrays := (arrays h)(next_array h := []), next_array := Suc (next_array h)\<rparr>)"

text \<open>
  \<^verbatim>\<open>redacted(target, propertyToRedact)\<close>, statement by statement: the metadata object
  found or a new one, the array under \<^verbatim>\<open>redacted\<close> or a new one, the \<^verbatim>\<open>push\<close> onto that
  array, the assignment into that object, and the definition of the target's own entry.
\<close>

definition redacted :: "'t \<Rightarrow> string \<Rightarrow> ('t, 'a) Heap \<Rightarrow> TypeError + ('t, 'a) Heap" where
  "redacted target propertyToRedact h =
     (case (case Reflect_getMetadata METADATA_KEY target h of
              Some m \<Rightarrow> (m, h)
            | None \<Rightarrow> new_object h) of
        (metadata, h1) \<Rightarrow>
          (case objects h1 metadata REDACTED_KEY of
             Some (Truthy x) \<Rightarrow> Inl (NotAFunction ''push'')
           | v \<Rightarrow>
               (case (case v of
                        Some (ArrayRef r) \<Rightarrow> (r, h1)
                      | _ \<Rightarrow> new_array h1) of
                  (redactedKeys, h2) \<Rightarrow>
                    (let h3 = h2\<lparr>arrays :=
                                  (arrays h2)(redactedKeys := arrays h2 redactedKeys @ [propertyToRedact])\<rparr>;
                         h4 = h3\<lparr>objects :=
                                  (objects h3)(metadata :=
                                    (objects h3 metadata)(REDACTED_KEY \<mapsto> ArrayRef redactedKeys))\<rparr>
                     in Inr (Reflect_defineMetadata METADATA_KEY metadata target h4)))))"

text \<open>
  What a target shows through \<^verbatim>\<open>Reflect.getMetadata\<close>: its metadata object (none is
  the empty object of \<^verbatim>\<open>|| {}\<close>), and the redacted keys in it (no list is no keys).
\<close>

definition metadata_of :: "'t \<Rightarrow> ('t, 'a) Heap \<Rightarrow> 'a Metadata" where
  "metadata_of target h =
     (case Reflect_getMetadata METADATA_KEY target h of None \<Rightarrow> Map.empty | Some m \<Rightarrow> objects h m)"

definition redactedKeys_of :: "'t \<Rightarrow> ('t, 'a) Heap \<Rightarrow> string list" where
  "redactedKeys_of target h =
     (case metadata_of target h REDACTED_KEY of Some (ArrayRef r) \<Rightarrow> arrays h r | _ \<Rightarrow> [])"

text \<open>
  Whether the value under \<^verbatim>\<open>redacted\<close> can take the \<^verbatim>\<open>push\<close>: it is absent, replaced by
  a new array, or an array.
\<close>

definition pushable :: "'a MetaValue option \<Rightarrow> bool" where
  "pushable v = (case v of Some (Truthy x) \<Rightarrow> False | _ \<Rightarrow> True)"

section \<open>Example inputs\<close>

text \<open>
  A new response with status 200 and no headers, an event with request id \<^verbatim>\<open>req-1\<close>,
  and a validation handler with two schemas that fail and accepts everything else.
\<close>

definition example_fresh :: "string HTTPResponse" where
  "example_fresh = \<lparr>statusCode = 200, responseBody = Payload [], headers = Map.empty\<rparr>"

definition example_event :: "string HTTPEvent" where
  "example_event = \<lparr>body = ''{}'', requestContext = \<lparr>requestId = ''req-1''\<rparr>\<rparr>"

definition example_validate :: "string \<Rightarrow> string \<Rightarrow> string" where
  "example_validate b s =
     (if s = ''name'' then ''name is required''
      else if s = ''age'' then ''age is required''
      else [])"

definition ok_response :: "string HTTPResponse" where
  "ok_response = \<lparr>statusCode = 200, responseBody = Payload ''ok'', headers = Map.empty\<rparr>"

text \<open>
  Three decorated methods: one whose promise fulfils, one whose promise rejects, and one
  that is no \<^verbatim>\<open>async\<close> function and raises before it returns a promise.
\<close>

definition ok_handler ::
  "string HTTPEvent \<Rightarrow> unit \<Rightarrow> string Validation list option \<Rightarrow> string HTTPResponse Invocation" where
  "ok_handler event context validations = Returned (Fulfilled ok_response)"

definition rejecting_handler ::
  "string HTTPEvent \<Rightarrow> unit \<Rightarrow> string Validation list option \<Rightarrow> string HTTPResponse Invocation" where
  "rejecting_handler event context validations = Returned (Rejected (Error ''boom''))"

definition throwing_handler ::
  "string HTTPEvent \<Rightarrow> unit \<Rightarrow> string Validation list option \<Rightarrow> string HTTPResponse Invocation" where
  "throwing_handler event context validations = Threw (Error ''boom'')"

text \<open>
  The mappings of the Unicode character database at the code points of the examples:
  the ASCII letters, \<^verbatim>\<open>e\<close> with acute (233, capital 201), the sharp s (223), whose
  uppercase mapping is \<^verbatim>\<open>SS\<close>, and the capital sharp s (7838), whose lowercase mapping
  is the sharp s and which is its own uppercase. The examples use no other code point.
\<close>

definition example_upper :: "nat \<Rightarrow> nat list" where
  "example_upper c =
     (if 97 \<le> c \<and> c \<le> 122 then [c - 32]
      else if c = 233 then [201]
      else if c = 223 then [83, 83]
      else [c])"

definition example_lower :: "nat \<Rightarrow> nat list" where
  "example_lower c =
     (if 65 \<le> c \<and> c \<le> 90 then [c + 32]
      else if c = 201 then [233]
      else if c = 7838 then [223]
      else [c])"

text \<open>
  A heap with a parent prototype 0 and a child prototype 1. The parent has the metadata
  object at address 0, with one redacted key and one other entry; the child has no entry
  of its own. Target 5 has no prototype with metadata and none itself.
\<close>

definition example_heap :: "(nat, unit) Heap" where
  "example_heap =
     \<lparr>ancestors = (\<lambda>t. if t = 1 then [0] else []),
      own_metadata = [(METADATA_KEY, 0) \<mapsto> 0],
      objects = (\<lambda>a. if a = 0 then [REDACTED_KEY \<mapsto> ArrayRef 0, ''version'' \<mapsto> Truthy ()]
                      else Map.empty),
      arrays = (\<lambda>a. if a = 0 then [''password''] else []),
      next_object = 1,
      next_array = 1\<rparr>"

lemmas example_defs =
  example_fresh_def example_event_def example_validate_def ok_response_def ok_handler_def
  rejecting_handler_def throwing_handler_def

lemmas response_defs = HTTPResponse_setBody_def setStatusCode_def addHeader_def

section \<open>Facts about the response methods and the validation loop\<close>

lemma headers_addHeader: "headers (addHeader k v r) = (headers r)(k \<mapsto> v)"
  by (simp add: addHeader_def)

lemma forEach_validate_members:
  "set (fst (forEach_validate validate b vs (errs, calls))) =
     set errs \<union> (\<lambda>v. validate b (schema v)) ` set vs"
  by (induction vs arbitrary: errs calls) (auto simp: Set_add_def)

lemma forEach_validate_calls:
  "snd (forEach_validate validate b vs (errs, calls)) = calls @ map schema vs"
  by (induction vs arbitrary: errs calls) auto

lemma forEach_validate_distinct:
  "distinct errs \<Longrightarrow> distinct (fst (forEach_validate validate b vs (errs, calls)))"
  by (induction vs arbitrary: errs calls) (auto simp: Set_add_def)

text \<open>One member is added for each validation, so a list of validations leaves the set non-empty.\<close>

lemma forEach_validate_nonempty:
  assumes "vs \<noteq> []"
  shows "fst (forEach_validate validate b vs ([], [])) \<noteq> []"
proof -
  from assms obtain v where "v \<in> set vs" by (cases vs) auto
  then have "validate b (schema v) \<in> set (fst (forEach_validate validate b vs ([], [])))"
    by (simp add: forEach_validate_members)
  then show ?thesis by auto
qed

text \<open>
  Whatever the validators answer, a request with at least one validation gets the
  response 400 and the decorated method is not called.
\<close>

lemma endpoint_value_validations_always_400:
  assumes "vs \<noteq> []"
  shows "endpoint_value fresh validate targetMethod event context (Some vs) =
     \<lparr>outcome =
        Response
          (addHeader ''X-REQUEST-ID'' (requestId (requestContext event))
            (setStatusCode 400
              (HTTPResponse_setBody fresh
                (MessageBody (MessageSet (fst (forEach_validate validate (body event) vs ([], [])))))))),
      validated = map schema vs,
      invoked = 0\<rparr>"
  using forEach_validate_nonempty [OF assms, of validate "body event"]
        forEach_validate_calls [of validate "body event" vs "[]" "[]"]
  by (auto simp: endpoint_value_def Set_size_def split: prod.splits)

lemma endpoint_value_validated:
  "validated (endpoint_value fresh validate targetMethod event context (Some vs)) = map schema vs"
  using forEach_validate_calls [of validate "body event" vs "[]" "[]"]
  by (auto simp: endpoint_value_def invoke_target_def split: prod.splits)

lemma endpoint_value_invoked:
  "invoked (endpoint_value fresh validate targetMethod event context (Some vs)) =
     (if set (fst (forEach_validate validate (body event) vs ([], []))) = {} then 1 else 0)"
  by (auto simp: endpoint_value_def invoke_target_def Set_size_def split: prod.splits)

text \<open>The decorator installs \<open>endpoint_value\<close> around the method and registers that function.\<close>

lemma endpoint_installs:
  "value (fst (endpoint fresh validate upper p a condition priority target propertyKey descriptor routes)) =
     endpoint_value fresh validate (value descriptor)"
  by (simp add: endpoint_def Let_def)

lemma endpoint_registers_installed:
  "map route_endpoint
     (snd (endpoint fresh validate upper p a condition priority target propertyKey descriptor routes)) =
     map route_endpoint routes @ [endpoint_value fresh validate (value descriptor)]"
  by (simp add: endpoint_def EndpointRouter_register_def Let_def)

section \<open>Validation and the handler\<close>

text \<open>
  C1. The claim: with a non-empty validations sequence the handler is invoked exactly
  when every validator returns the empty string, and the 400 response is produced exactly
  when some validator returns a non-empty message. The code adds every result of
  \<^verbatim>\<open>validate\<close> to the set, the empty string of a valid body too, and then tests the
  size of the set. Here the only validation accepts the body: the installed function
  answers 400 with the message set holding the empty string, and the handler is not
  called.
\<close>

theorem endpoint_value_valid_body_gets_400:
  "invoked (endpoint_value example_fresh example_validate ok_handler example_event ()
      (Some [\<lparr>schema = ''anything''\<rparr>])) = 0 \<and>
   outcome (endpoint_value example_fresh example_validate ok_handler example_event ()
      (Some [\<lparr>schema = ''anything''\<rparr>])) =
     Response \<lparr>statusCode = 400, responseBody = MessageBody (MessageSet [[]]),
               headers = [''X-REQUEST-ID'' \<mapsto> ''req-1'']\<rparr> \<and>
   example_validate (body example_event) ''anything'' = []"
  by (simp add: endpoint_value_def example_defs response_defs Set_add_def Set_size_def)

text \<open>
  C2. The claim: when some validator returns a non-empty message, the response has
  status 400 and its message is exactly the set of the distinct error strings. The
  status is 400, but the set also holds the empty string as soon as one validator
  accepts the body. Here the first validation passes and the second fails: the message
  set has two members, the empty string and the one error.
\<close>

theorem endpoint_value_message_set_holds_empty_string:
  "outcome (endpoint_value example_fresh example_validate ok_handler example_event ()
      (Some [\<lparr>schema = ''anything''\<rparr>, \<lparr>schema = ''name''\<rparr>])) =
     Response \<lparr>statusCode = 400, responseBody = MessageBody (MessageSet [[], ''name is required'']),
               headers = [''X-REQUEST-ID'' \<mapsto> ''req-1'']\<rparr> \<and>
   example_validate (body example_event) ''anything'' = [] \<and>
   example_validate (body example_event) ''name'' = ''name is required''"
  by (simp add: endpoint_value_def example_defs response_defs Set_add_def Set_size_def)

text \<open>
  The set in the response holds the result of every validation, and nothing else; with
  no validation there is no such response.
\<close>

lemma endpoint_value_message_members:
  "message_members (outcome (endpoint_value fresh validate targetMethod event context (Some vs))) =
     (\<lambda>v. validate (body event) (schema v)) ` set vs"
proof (cases vs)
  case Nil
  then show ?thesis
    by (simp add: endpoint_value_def invoke_target_def Set_size_def message_members_def
             split: Invocation.splits)
next
  case (Cons v ws)
  then have "vs \<noteq> []" by simp
  then show ?thesis
    by (simp add: endpoint_value_validations_always_400 message_members_def response_defs
                  forEach_validate_members)
qed

text \<open>
  C7. For every body and every sequence of validations, each validation is handed to
  the validation handler once, in order, whatever the earlier ones answered, and the set
  of messages, in the loop and in the response, has exactly the results of
  \<^verbatim>\<open>validate\<close> on all of them as its members. So for every permutation of the
  validations the set has the same members, and the handler is called in the one order
  exactly when it is called in the other.
\<close>

theorem validation_order_independent:
  assumes "mset vs' = mset vs"
  shows "validated (endpoint_value fresh validate targetMethod event context (Some vs)) = map schema vs \<and>
         validated (endpoint_value fresh validate targetMethod event context (Some vs')) = map schema vs' \<and>
         set (fst (forEach_validate validate (body event) vs ([], []))) =
           (\<lambda>v. validate (body event) (schema v)) ` set vs \<and>
         set (fst (forEach_validate validate (body event) vs' ([], []))) =
           set (fst (forEach_validate validate (body event) vs ([], []))) \<and>
         message_members (outcome (endpoint_value fresh validate targetMethod event context (Some vs))) =
           (\<lambda>v. validate (body event) (schema v)) ` set vs \<and>
         message_members (outcome (endpoint_value fresh validate targetMethod event context (Some vs'))) =
           message_members (outcome (endpoint_value fresh validate targetMethod event context (Some vs))) \<and>
         invoked (endpoint_value fresh validate targetMethod event context (Some vs')) =
           invoked (endpoint_value fresh validate targetMethod event context (Some vs))"
proof -
  from assms have s: "set vs' = set vs"
    by (rule mset_eq_setD)
  have m: "set (fst (forEach_validate validate (body event) ws ([], []))) =
             (\<lambda>v. validate (body event) (schema v)) ` set ws" for ws
    by (simp add: forEach_validate_members)
  show ?thesis
    by (simp only: endpoint_value_validated endpoint_value_invoked endpoint_value_message_members
                   m s simp_thms)
qed

theorem validation_order_independent_witness:
  "mset [\<lparr>schema = ''age''\<rparr>, \<lparr>schema = ''anything''\<rparr>, \<lparr>schema = ''name''\<rparr>] =
   mset [\<lparr>schema = ''name''\<rparr>, \<lparr>schema = ''anything''\<rparr>, \<lparr>schema = ''age''\<rparr>] \<and>
   validated (endpoint_value example_fresh example_validate ok_handler example_event ()
      (Some [\<lparr>schema = ''name''\<rparr>, \<lparr>schema = ''anything''\<rparr>, \<lparr>schema = ''age''\<rparr>])) =
     [''name'', ''anything'', ''age''] \<and>
   validated (endpoint_value example_fresh example_validate ok_handler example_event ()
      (Some [\<lparr>schema = ''age''\<rparr>, \<lparr>schema = ''anything''\<rparr>, \<lparr>schema = ''name''\<rparr>])) =
     [''age'', ''anything'', ''name''] \<and>
   fst (forEach_validate example_validate (body example_event)
      [\<lparr>schema = ''name''\<rparr>, \<lparr>schema = ''anything''\<rparr>, \<lparr>schema = ''age''\<rparr>] ([], [])) =
     [''name is required'', [], ''age is required''] \<and>
   fst (forEach_validate example_validate (body example_event)
      [\<lparr>schema = ''age''\<rparr>, \<lparr>schema = ''anything''\<rparr>, \<lparr>schema = ''name''\<rparr>] ([], [])) =
     [''age is required'', [], ''name is required''] \<and>
   message_members (outcome (endpoint_value example_fresh example_validate ok_handler example_event ()
      (Some [\<lparr>schema = ''age''\<rparr>, \<lparr>schema = ''anything''\<rparr>, \<lparr>schema = ''name''\<rparr>]))) =
     {''name is required'', [], ''age is required''} \<and>
   message_members (outcome (endpoint_value example_fresh example_validate ok_handler example_event ()
      (Some [\<lparr>schema = ''name''\<rparr>, \<lparr>schema = ''anything''\<rparr>, \<lparr>schema = ''age''\<rparr>]))) =
     {''name is required'', [], ''age is required''}"
proof -
  have h: "mset [\<lparr>schema = ''age''\<rparr>, \<lparr>schema = ''anything''\<rparr>, \<lparr>schema = ''name''\<rparr>] =
           mset [\<lparr>schema = ''name''\<rparr>, \<lparr>schema = ''anything''\<rparr>, \<lparr>schema = ''age''\<rparr>]"
    by (simp add: add_mset_commute)
  have a: "fst (forEach_validate example_validate (body example_event)
      [\<lparr>schema = ''name''\<rparr>, \<lparr>schema = ''anything''\<rparr>, \<lparr>schema = ''age''\<rparr>] ([], [])) =
     [''name is required'', [], ''age is required'']"
    by (simp add: example_validate_def Set_add_def)
  have b: "fst (forEach_validate example_validate (body example_event)
      [\<lparr>schema = ''age''\<rparr>, \<lparr>schema = ''anything''\<rparr>, \<lparr>schema = ''name''\<rparr>] ([], [])) =
     [''age is required'', [], ''name is required'']"
    by (simp add: example_validate_def Set_add_def)
  have c: "(\<lambda>v. example_validate (body example_event) (schema v)) `
             set [\<lparr>schema = ''name''\<rparr>, \<lparr>schema = ''anything''\<rparr>, \<lparr>schema = ''age''\<rparr>] =
           {''name is required'', [], ''age is required''}"
    by (auto simp: example_validate_def)
  from validation_order_independent [OF h, of example_fresh example_validate ok_handler example_event "()"]
       h a b c
  show ?thesis by (simp add: insert_commute)
qed

section \<open>The three paths of the installed function\<close>

text \<open>
  The rejection path: when the decorated method is called and returns a promise that
  rejects with an error of message \<open>m\<close>, the installed function returns a promise that
  fulfils with a response of status 501, body \<^verbatim>\<open>{ message: m }\<close> and the header
  \<^verbatim>\<open>X-REQUEST-ID\<close> equal to the request's id.
\<close>

lemma endpoint_value_rejection_gives_501:
  assumes "targetMethod event context validations = Returned (Rejected e)"
      and "invoked (endpoint_value fresh validate targetMethod event context validations) = 1"
  shows "\<exists>r. outcome (endpoint_value fresh validate targetMethod event context validations) =
                PromiseOf (Fulfilled r) \<and>
             statusCode r = 501 \<and>
             responseBody r = MessageBody (MessageText (message e)) \<and>
             headers r ''X-REQUEST-ID'' = Some (requestId (requestContext event))"
  using assms
  by (auto simp: endpoint_value_def invoke_target_def response_defs
           split: option.splits prod.splits if_splits)

lemma endpoint_value_rejection_example:
  "outcome (endpoint_value example_fresh example_validate rejecting_handler example_event () None) =
     PromiseOf (Fulfilled \<lparr>statusCode = 501, responseBody = MessageBody (MessageText ''boom''),
                           headers = [''X-REQUEST-ID'' \<mapsto> ''req-1'']\<rparr>)"
  by (simp add: endpoint_value_def invoke_target_def example_defs response_defs)

text \<open>
  The other way for a method to fail: it raises before it returns a promise. Whenever
  the method is called and raises, the installed function raises the same error.
\<close>

lemma endpoint_value_throw_raised:
  assumes "targetMethod event context validations = Threw e"
      and "invoked (endpoint_value fresh validate targetMethod event context validations) = 1"
  shows "outcome (endpoint_value fresh validate targetMethod event context validations) = Raised e"
  using assms
  by (auto simp: endpoint_value_def invoke_target_def split: option.splits prod.splits if_splits)

text \<open>
  C3. The claim: whether the handler throws or its promise rejects with an error of
  message \<open>m\<close>, the dispatcher returns a response with status 501, body
  \<^verbatim>\<open>{ message: m }\<close> and the request's id in \<^verbatim>\<open>X-REQUEST-ID\<close>, and the failure never
  leaves the dispatcher. The code attaches \<^verbatim>\<open>catch\<close> to the promise that the call
  returns, so it turns a rejection into the 501 response, but the call itself is outside
  any \<^verbatim>\<open>try\<close>. Here the method, which is no \<^verbatim>\<open>async\<close> function, throws the error
  \<^verbatim>\<open>boom\<close>: the installed function throws the same error and produces no response.
\<close>

theorem endpoint_value_synchronous_throw_propagates:
  "throwing_handler example_event () None = Threw (Error ''boom'') \<and>
   invoked (endpoint_value example_fresh example_validate throwing_handler example_event () None) = 1 \<and>
   outcome (endpoint_value example_fresh example_validate throwing_handler example_event () None) =
     Raised (Error ''boom'')"
  by (simp add: endpoint_value_def invoke_target_def example_defs)

text \<open>
  C4. Every response that the installed function produces, returned directly on the
  validation path or as the value of its promise on the two handler paths, has the
  header \<^verbatim>\<open>X-REQUEST-ID\<close> set to the event's \<^verbatim>\<open>requestContext.requestId\<close>.
\<close>

theorem endpoint_value_request_id_header:
  assumes "outcome (endpoint_value fresh validate targetMethod event context validations) = Response r \<or>
           outcome (endpoint_value fresh validate targetMethod event context validations) =
             PromiseOf (Fulfilled r)"
  shows "headers r ''X-REQUEST-ID'' = Some (requestId (requestContext event))"
  using assms
  by (auto simp: endpoint_value_def invoke_target_def response_defs
           split: option.splits prod.splits if_splits Invocation.splits Settled.splits)

theorem endpoint_value_request_id_header_witness:
  "outcome (endpoint_value example_fresh example_validate ok_handler example_event ()
      (Some [\<lparr>schema = ''name''\<rparr>])) =
     Response \<lparr>statusCode = 400, responseBody = MessageBody (MessageSet [''name is required'']),
               headers = [''X-REQUEST-ID'' \<mapsto> ''req-1'']\<rparr> \<and>
   outcome (endpoint_value example_fresh example_validate ok_handler example_event () None) =
     PromiseOf (Fulfilled \<lparr>statusCode = 200, responseBody = Payload ''ok'',
                           headers = [''X-REQUEST-ID'' \<mapsto> ''req-1'']\<rparr>) \<and>
   outcome (endpoint_value example_fresh example_validate rejecting_handler example_event () None) =
     PromiseOf (Fulfilled \<lparr>statusCode = 501, responseBody = MessageBody (MessageText ''boom''),
                           headers = [''X-REQUEST-ID'' \<mapsto> ''req-1'']\<rparr>) \<and>
   requestId (requestContext example_event) = ''req-1''"
proof -
  have a: "outcome (endpoint_value example_fresh example_validate ok_handler example_event ()
      (Some [\<lparr>schema = ''name''\<rparr>])) =
     Response \<lparr>statusCode = 400, responseBody = MessageBody (MessageSet [''name is required'']),
               headers = [''X-REQUEST-ID'' \<mapsto> ''req-1'']\<rparr>"
    by (simp add: endpoint_value_def example_defs response_defs Set_add_def Set_size_def)
  have b: "outcome (endpoint_value example_fresh example_validate ok_handler example_event () None) =
     PromiseOf (Fulfilled \<lparr>statusCode = 200, responseBody = Payload ''ok'',
                           headers = [''X-REQUEST-ID'' \<mapsto> ''req-1'']\<rparr>)"
    by (simp add: endpoint_value_def invoke_target_def example_defs response_defs)
  have c: "outcome (endpoint_value example_fresh example_validate rejecting_handler example_event () None) =
     PromiseOf (Fulfilled \<lparr>statusCode = 501, responseBody = MessageBody (MessageText ''boom''),
                           headers = [''X-REQUEST-ID'' \<mapsto> ''req-1'']\<rparr>)"
    by (simp add: endpoint_value_def invoke_target_def example_defs response_defs)
  from endpoint_value_request_id_header [OF disjI1, OF a]
       endpoint_value_request_id_header [OF disjI2, OF b]
       endpoint_value_request_id_header [OF disjI2, OF c] a b c
  show ?thesis by simp
qed

text \<open>
  C5. For every request on which the decorated method is called and its promise fulfils
  with a response, the installed function's promise fulfils with that response, its
  status and body as the method set them and its headers changed at \<^verbatim>\<open>X-REQUEST-ID\<close>
  only.
\<close>

theorem endpoint_value_success_adds_only_request_id:
  assumes "targetMethod event context validations = Returned (Fulfilled response)"
      and "invoked (endpoint_value fresh validate targetMethod event context validations) = 1"
  shows "outcome (endpoint_value fresh validate targetMethod event context validations) =
           PromiseOf (Fulfilled
             (response\<lparr>headers := (headers response)(''X-REQUEST-ID'' \<mapsto> requestId (requestContext event))\<rparr>))"
  using assms
  by (auto simp: endpoint_value_def invoke_target_def response_defs
           split: option.splits prod.splits if_splits)

theorem endpoint_value_success_adds_only_request_id_witness:
  "ok_handler example_event () (Some []) = Returned (Fulfilled ok_response) \<and>
   invoked (endpoint_value example_fresh example_validate ok_handler example_event () (Some [])) = 1 \<and>
   outcome (endpoint_value example_fresh example_validate ok_handler example_event () (Some [])) =
     PromiseOf (Fulfilled \<lparr>statusCode = 200, responseBody = Payload ''ok'',
                           headers = [''X-REQUEST-ID'' \<mapsto> ''req-1'']\<rparr>)"
proof -
  have h1: "ok_handler example_event () (Some []) = Returned (Fulfilled ok_response)"
    by (simp add: ok_handler_def)
  have h2: "invoked (endpoint_value example_fresh example_validate ok_handler example_event () (Some [])) = 1"
    by (simp add: endpoint_value_def invoke_target_def Set_size_def)
  from endpoint_value_success_adds_only_request_id [OF h1 h2] h1 h2 show ?thesis
    by (simp add: example_defs)
qed

section \<open>CORS headers\<close>

text \<open>
  C6. For every response with which the decorated method's promise fulfils, the function
  installed by \<^verbatim>\<open>cors\<close> fulfils with a response that has
  \<^verbatim>\<open>Access-Control-Allow-Origin\<close> (the string given, or the function given applied to
  the event and the response) and \<^verbatim>\<open>Access-Control-Allow-Credentials\<close> (the string
  \<^verbatim>\<open>true\<close> or \<^verbatim>\<open>false\<close>, \<^verbatim>\<open>true\<close> when the argument is left out). It sets
  \<^verbatim>\<open>Access-Control-Allow-Methods\<close> to the actions joined with a comma and a space when
  a list of actions was given, and leaves that header as the method set it otherwise;
  likewise \<^verbatim>\<open>Access-Control-Allow-Headers\<close> and the keys of the headers object.
\<close>

theorem cors_adds_headers:
  assumes "value descriptor event context validations = Returned (Fulfilled response)"
  shows "\<exists>r. value (cors allowedOrigin allowedActions allowedHeaders allowCredentials
                       target propertyKey descriptor) event context validations =
                Returned (Fulfilled r) \<and>
             headers r ''Access-Control-Allow-Origin'' =
               Some (case allowedOrigin of
                       OriginString s \<Rightarrow> s
                     | OriginFunction f \<Rightarrow> f event response) \<and>
             headers r ''Access-Control-Allow-Credentials'' =
               Some (if allowCredentials = Some False then ''false'' else ''true'') \<and>
             headers r ''Access-Control-Allow-Methods'' =
               (case allowedActions of
                  Some actions \<Rightarrow> Some (join '', '' actions)
                | None \<Rightarrow> headers response ''Access-Control-Allow-Methods'') \<and>
             headers r ''Access-Control-Allow-Headers'' =
               (case allowedHeaders of
                  Some hs \<Rightarrow> Some (join '', '' (map fst hs))
                | None \<Rightarrow> headers response ''Access-Control-Allow-Headers'')"
  using assms
  by (auto simp: cors_def cors_value_def cors_then_def Let_def headers_addHeader split: option.splits)

theorem cors_adds_headers_witness:
  "value \<lparr>value = ok_handler\<rparr> example_event () None = Returned (Fulfilled ok_response) \<and>
   value (cors (OriginString ''*'') (Some [''GET'', ''POST'']) None (Some False) () ''list''
            \<lparr>value = ok_handler\<rparr>) example_event () None =
     Returned (Fulfilled
       \<lparr>statusCode = 200, responseBody = Payload ''ok'',
        headers = [''Access-Control-Allow-Origin'' \<mapsto> ''*'',
                   ''Access-Control-Allow-Credentials'' \<mapsto> ''false'',
                   ''Access-Control-Allow-Methods'' \<mapsto> ''GET, POST'']\<rparr>)"
proof -
  have h: "value \<lparr>value = ok_handler\<rparr> example_event () None = Returned (Fulfilled ok_response)"
    by (simp add: ok_handler_def)
  from cors_adds_headers [OF h, of "OriginString ''*''" "Some [''GET'', ''POST'']" None "Some False" "()" "''list''"]
  obtain r where
    "value (cors (OriginString ''*'') (Some [''GET'', ''POST'']) None (Some False) () ''list''
              \<lparr>value = ok_handler\<rparr>) example_event () None = Returned (Fulfilled r)"
    by blast
  with h show ?thesis
    by (simp add: cors_def cors_value_def cors_then_def Let_def addHeader_def example_defs)
qed

section \<open>Registration\<close>

lemma toUpperCase_append: "toUpperCase upper (s @ t) = toUpperCase upper s @ toUpperCase upper t"
  by (simp add: toUpperCase_def)

lemma toUpperCase_stable:
  "upper_stable upper s \<Longrightarrow> toUpperCase upper (toUpperCase upper s) = toUpperCase upper s"
proof (induction s)
  case Nil
  then show ?case by (simp add: toUpperCase_def)
next
  case (Cons c s)
  then have "toUpperCase upper (upper c) = upper c"
        and "toUpperCase upper (toUpperCase upper s) = toUpperCase upper s"
    by (simp_all add: upper_stable_def)
  moreover have "toUpperCase upper (c # s) = upper c @ toUpperCase upper s"
    by (simp add: toUpperCase_def)
  ultimately show ?case
    by (simp add: toUpperCase_append)
qed

lemma ASCII_upper_mappingD:
  "ASCII_upper_mapping upper \<Longrightarrow> c < 128 \<Longrightarrow> upper c = [ascii_upper c]"
  by (simp add: ASCII_upper_mapping_def list_all_iff)

lemma ASCII_lower_mappingD:
  "ASCII_lower_mapping lower \<Longrightarrow> c < 128 \<Longrightarrow> lower c = [ascii_lower c]"
  by (simp add: ASCII_lower_mapping_def list_all_iff)

lemma ascii_upper_less: "c < 128 \<Longrightarrow> ascii_upper c < 128"
  by (auto simp: ascii_upper_def)

lemma ascii_upper_idem: "ascii_upper (ascii_upper c) = ascii_upper c"
  by (auto simp: ascii_upper_def)

lemma ascii_upper_lower: "ascii_lower c = ascii_lower d \<Longrightarrow> ascii_upper c = ascii_upper d"
  by (auto simp: ascii_upper_def ascii_lower_def split: if_splits)

lemma toUpperCase_ASCII:
  "ASCII_upper_mapping upper \<Longrightarrow> is_ASCII s \<Longrightarrow> toUpperCase upper s = map ascii_upper s"
  by (induction s) (simp_all add: toUpperCase_def is_ASCII_def ASCII_upper_mappingD)

lemma is_ASCII_map_ascii_upper: "is_ASCII s \<Longrightarrow> is_ASCII (map ascii_upper s)"
  by (induction s) (simp_all add: is_ASCII_def ascii_upper_less)

lemma toUpperCase_twice_ASCII:
  assumes "ASCII_upper_mapping upper" and "is_ASCII s"
  shows "toUpperCase upper (toUpperCase upper s) = map ascii_upper s"
proof -
  have "toUpperCase upper (toUpperCase upper s) = map ascii_upper (map ascii_upper s)"
    using assms by (simp add: toUpperCase_ASCII is_ASCII_map_ascii_upper)
  then show ?thesis
    by (simp add: ascii_upper_idem)
qed

lemma differ_only_in_case_ASCII:
  assumes "ASCII_lower_mapping lower" and "differ_only_in_case lower a b"
      and "is_ASCII a" and "is_ASCII b"
  shows "map ascii_upper a = map ascii_upper b"
  using assms(2-4) unfolding differ_only_in_case_def
proof (induction a b rule: list_all2_induct)
  case Nil
  then show ?case by simp
next
  case (Cons c a d b)
  then have "c < 128" "d < 128" "is_ASCII a" "is_ASCII b"
    by (simp_all add: is_ASCII_def)
  with Cons assms(1) have "ascii_lower c = ascii_lower d"
    by (simp add: ASCII_lower_mappingD)
  then have "ascii_upper c = ascii_upper d"
    by (rule ascii_upper_lower)
  with Cons \<open>is_ASCII a\<close> \<open>is_ASCII b\<close> show ?case by simp
qed

lemma endpoint_route_actions:
  "map route_action
     (snd (endpoint fresh validate upper p a condition priority target propertyKey descriptor routes)) =
     map route_action routes @ [toUpperCase upper (toUpperCase upper a)]"
  by (simp add: endpoint_def EndpointRouter_register_def Let_def)

text \<open>
  C8, as the claim states it, at the sharp s and its capital: the two action strings
  differ in the case of their one letter only, and the decorator registers the first as
  \<^verbatim>\<open>SS\<close> and the second as the capital sharp s.
\<close>

theorem endpoint_sharp_s_registers_two_actions:
  "differ_only_in_case example_lower [223] [7838] \<and>
   map route_action
     (snd (endpoint example_fresh example_validate example_upper ''/s'' [223] (None :: unit option) None
        () ''list'' \<lparr>value = ok_handler\<rparr> [])) = [[83, 83]] \<and>
   map route_action
     (snd (endpoint example_fresh example_validate example_upper ''/s'' [7838] (None :: unit option) None
        () ''list'' \<lparr>value = ok_handler\<rparr> [])) = [[7838]]"
  by (simp add: endpoint_route_actions differ_only_in_case_def toUpperCase_def example_upper_def
                example_lower_def)

text \<open>
  C8, amended. For every action string the decorator registers one route, whose action
  is the string upper-cased twice. That is the upper-cased string whenever a second
  upper-casing changes nothing on its characters, and for a string of ASCII characters
  it is the string with \<^verbatim>\<open>a\<close> to \<^verbatim>\<open>z\<close> replaced by \<^verbatim>\<open>A\<close> to \<^verbatim>\<open>Z\<close>. Two declarations
  register the same action when their action strings have the same upper-cased form,
  and so when they are strings of ASCII characters that differ only in letter case.
\<close>

theorem endpoint_registers_uppercase_action:
  "map route_action
     (snd (endpoint fresh validate upper p a condition priority target propertyKey descriptor routes)) =
     map route_action routes @ [toUpperCase upper (toUpperCase upper a)] \<and>
   (upper_stable upper a \<longrightarrow>
      toUpperCase upper (toUpperCase upper a) = toUpperCase upper a) \<and>
   (ASCII_upper_mapping upper \<and> is_ASCII a \<longrightarrow>
      toUpperCase upper (toUpperCase upper a) = map ascii_upper a) \<and>
   (toUpperCase upper a = toUpperCase upper b \<longrightarrow>
      map route_action
        (snd (endpoint fresh validate upper p b condition priority target propertyKey descriptor routes)) =
      map route_action
        (snd (endpoint fresh validate upper p a condition priority target propertyKey descriptor routes))) \<and>
   (ASCII_upper_mapping upper \<and> ASCII_lower_mapping lower \<and> is_ASCII a \<and> is_ASCII b \<and>
    differ_only_in_case lower a b \<longrightarrow>
      map route_action
        (snd (endpoint fresh validate upper p b condition priority target propertyKey descriptor routes)) =
      map route_action
        (snd (endpoint fresh validate upper p a condition priority target propertyKey descriptor routes)))"
proof -
  have "toUpperCase upper (toUpperCase upper b) = toUpperCase upper (toUpperCase upper a)"
    if "ASCII_upper_mapping upper" "ASCII_lower_mapping lower" "is_ASCII a" "is_ASCII b"
       "differ_only_in_case lower a b"
    using that by (simp add: toUpperCase_twice_ASCII differ_only_in_case_ASCII [of lower a b])
  then show ?thesis
    by (auto simp: endpoint_route_actions toUpperCase_stable toUpperCase_twice_ASCII)
qed

lemma example_upper_ASCII: "ASCII_upper_mapping example_upper"
  by (auto simp: ASCII_upper_mapping_def list_all_iff example_upper_def ascii_upper_def)

lemma example_lower_ASCII: "ASCII_lower_mapping example_lower"
  by (auto simp: ASCII_lower_mapping_def list_all_iff example_lower_def ascii_lower_def)

theorem endpoint_registers_uppercase_action_witness:
  "ASCII_upper_mapping example_upper \<and> ASCII_lower_mapping example_lower \<and>
   is_ASCII (codePoints ''get'') \<and> is_ASCII (codePoints ''Get'') \<and>
   differ_only_in_case example_lower (codePoints ''get'') (codePoints ''Get'') \<and>
   map route_action
     (snd (endpoint example_fresh example_validate example_upper ''/users'' (codePoints ''get'')
        (None :: unit option) None () ''list'' \<lparr>value = ok_handler\<rparr> [])) = [codePoints ''GET''] \<and>
   map route_action
     (snd (endpoint example_fresh example_validate example_upper ''/users'' (codePoints ''Get'')
        (None :: unit option) None () ''list'' \<lparr>value = ok_handler\<rparr> [])) = [codePoints ''GET''] \<and>
   map route_action
     (snd (endpoint example_fresh example_validate example_upper ''/users'' (codePoints ''post'')
        (None :: unit option) None () ''list'' \<lparr>value = ok_handler\<rparr> [])) = [codePoints ''POST''] \<and>
   upper_stable example_upper [115, 116, 114, 97, 223, 101] \<and>
   map route_action
     (snd (endpoint example_fresh example_validate example_upper ''/users'' [115, 116, 114, 97, 223, 101]
        (None :: unit option) None () ''list'' \<lparr>value = ok_handler\<rparr> [])) =
     [[83, 84, 82, 65, 83, 83, 69]] \<and>
   toUpperCase example_upper [99, 97, 102, 233] = toUpperCase example_upper [67, 65, 70, 201] \<and>
   map route_action
     (snd (endpoint example_fresh example_validate example_upper ''/users'' [99, 97, 102, 233]
        (None :: unit option) None () ''list'' \<lparr>value = ok_handler\<rparr> [])) = [[67, 65, 70, 201]] \<and>
   map route_action
     (snd (endpoint example_fresh example_validate example_upper ''/users'' [67, 65, 70, 201]
        (None :: unit option) None () ''list'' \<lparr>value = ok_handler\<rparr> [])) = [[67, 65, 70, 201]]"
proof -
  have g: "codePoints ''get'' = [103, 101, 116]" "codePoints ''Get'' = [71, 101, 116]"
          "codePoints ''GET'' = [71, 69, 84]" "codePoints ''post'' = [112, 111, 115, 116]"
          "codePoints ''POST'' = [80, 79, 83, 84]"
    by (simp_all add: codePoints_def)
  have i: "is_ASCII [103, 101, 116]" "is_ASCII [71, 101, 116]" "is_ASCII [112, 111, 115, 116]"
    by (simp_all add: is_ASCII_def)
  have d: "differ_only_in_case example_lower [103, 101, 116] [71, 101, 116]"
    by (simp add: differ_only_in_case_def example_lower_def)
  have u: "map ascii_upper [103, 101, 116] = [71, 69, 84]"
          "map ascii_upper [112, 111, 115, 116] = [80, 79, 83, 84]"
    by (simp_all add: ascii_upper_def)
  have s: "upper_stable example_upper [115, 116, 114, 97, 223, 101]"
    by (simp add: upper_stable_def toUpperCase_def example_upper_def)
  have t: "toUpperCase example_upper [115, 116, 114, 97, 223, 101] = [83, 84, 82, 65, 83, 83, 69]"
    by (simp add: toUpperCase_def example_upper_def)
  have c: "toUpperCase example_upper [99, 97, 102, 233] = [67, 65, 70, 201]"
          "toUpperCase example_upper [67, 65, 70, 201] = [67, 65, 70, 201]"
    by (simp_all add: toUpperCase_def example_upper_def)
  note w = endpoint_registers_uppercase_action
             [of example_fresh example_validate example_upper "''/users''" _ "None :: unit option" None
                 "()" "''list''" "\<lparr>value = ok_handler\<rparr>" "[]"]
  from w [of "[103, 101, 116]" "[71, 101, 116]" example_lower]
       w [of "[112, 111, 115, 116]" "[112, 111, 115, 116]" example_lower]
       w [of "[115, 116, 114, 97, 223, 101]" "[115, 116, 114, 97, 223, 101]" example_lower]
       w [of "[99, 97, 102, 233]" "[67, 65, 70, 201]" example_lower]
       example_upper_ASCII example_lower_ASCII g i d u s t c
  show ?thesis by simp
qed

text \<open>
  C9. The decorator \<^verbatim>\<open>xdelete\<close> hands \<^verbatim>\<open>Router.register\<close> one route, with the path
  given, the class of the target, the action \<^verbatim>\<open>DELETE\<close>, the name of the method and the
  function of the descriptor, and returns the descriptor it was given, with the same
  function.
\<close>

theorem xdelete_registers_DELETE:
  "fst (xdelete p target propertyKey descriptor routes) = descriptor \<and>
   value (fst (xdelete p target propertyKey descriptor routes)) = value descriptor \<and>
   snd (xdelete p target propertyKey descriptor routes) =
     routes @ [\<lparr>path = p, clazz = constructor target, action = DELETE, functionName = propertyKey,
                functionValue = value descriptor\<rparr>]"
  by (simp add: xdelete_def Router_register_def)

section \<open>Redacted keys\<close>

text \<open>After a definition on the target, the target's own entry is what is found for it.\<close>

lemma Reflect_getMetadata_defineMetadata:
  "Reflect_getMetadata k target (Reflect_defineMetadata k m target h) = Some m"
  by (simp add: Reflect_getMetadata_def Reflect_defineMetadata_def)

text \<open>
  Whoever found the metadata object \<open>m\<close> before the target got it as its own entry finds
  it afterwards: a prototype, a sibling and a subclass keep sharing it.
\<close>

lemma OrdinaryGetMetadata_define:
  "OrdinaryGetMetadata k own chain = Some m \<Longrightarrow>
   OrdinaryGetMetadata k (own((k, target) \<mapsto> m)) chain = Some m"
  by (induction chain) (auto split: option.splits)

lemma redacted_result:
  assumes "pushable (metadata_of target h REDACTED_KEY)"
  shows "\<exists>h' m r. redacted target p h = Inr h' \<and>
           Reflect_getMetadata METADATA_KEY target h' = Some m \<and>
           objects h' m = (metadata_of target h)(REDACTED_KEY \<mapsto> ArrayRef r) \<and>
           arrays h' r = redactedKeys_of target h @ [p]"
proof -
  define mh where
    "mh = (case Reflect_getMetadata METADATA_KEY target h of Some m \<Rightarrow> (m, h) | None \<Rightarrow> new_object h)"
  define m where "m = fst mh"
  define h1 where "h1 = snd mh"
  have o1: "objects h1 m = metadata_of target h"
    by (simp add: m_def h1_def mh_def metadata_of_def new_object_def split: option.splits)
  have a1: "arrays h1 = arrays h"
    by (simp add: h1_def mh_def new_object_def split: option.splits)
  define rh where
    "rh = (case objects h1 m REDACTED_KEY of Some (ArrayRef r) \<Rightarrow> (r, h1) | _ \<Rightarrow> new_array h1)"
  define r where "r = fst rh"
  define h2 where "h2 = snd rh"
  have o2: "objects h2 = objects h1"
    by (simp add: h2_def rh_def new_array_def split: option.splits MetaValue.splits)
  have a2: "arrays h2 r = redactedKeys_of target h"
    using o1 a1
    by (simp add: r_def h2_def rh_def new_array_def redactedKeys_of_def
             split: option.splits MetaValue.splits)
  define h' where
    "h' = Reflect_defineMetadata METADATA_KEY m target
            (h2\<lparr>arrays := (arrays h2)(r := arrays h2 r @ [p]),
                objects := (objects h2)(m := (objects h2 m)(REDACTED_KEY \<mapsto> ArrayRef r))\<rparr>)"
  from assms o1 have "pushable (objects h1 m REDACTED_KEY)"
    by simp
  then have "redacted target p h = Inr h'"
    unfolding redacted_def h'_def h2_def r_def rh_def h1_def m_def mh_def Let_def
    by (auto simp: pushable_def split: prod.splits option.splits MetaValue.splits)
  moreover have "Reflect_getMetadata METADATA_KEY target h' = Some m"
    unfolding h'_def by (rule Reflect_getMetadata_defineMetadata)
  moreover have "objects h' m = (metadata_of target h)(REDACTED_KEY \<mapsto> ArrayRef r)"
    using o1 o2 by (simp add: h'_def Reflect_defineMetadata_def)
  moreover have "arrays h' r = redactedKeys_of target h @ [p]"
    using a2 by (simp add: h'_def Reflect_defineMetadata_def)
  ultimately show ?thesis by blast
qed

text \<open>
  C10. When the value under \<^verbatim>\<open>redacted\<close> in the metadata that the target shows, its own
  or its prototype's, is an array or is missing, an application of \<^verbatim>\<open>redacted\<close>
  succeeds; afterwards the target's list of redacted keys is the list before with the
  property name at its end, and every other entry of the target's metadata is as before.
\<close>

theorem redacted_appends:
  assumes "pushable (metadata_of target h REDACTED_KEY)"
  shows "\<exists>h'. redacted target p h = Inr h' \<and>
           redactedKeys_of target h' = redactedKeys_of target h @ [p] \<and>
           (metadata_of target h')(REDACTED_KEY := None) =
             (metadata_of target h)(REDACTED_KEY := None)"
proof -
  from redacted_result [OF assms, of p] obtain h' m r where
    r: "redacted target p h = Inr h'"
       "Reflect_getMetadata METADATA_KEY target h' = Some m"
       "objects h' m = (metadata_of target h)(REDACTED_KEY \<mapsto> ArrayRef r)"
       "arrays h' r = redactedKeys_of target h @ [p]"
    by blast
  from r(2,3) have m: "metadata_of target h' = (metadata_of target h)(REDACTED_KEY \<mapsto> ArrayRef r)"
    by (simp add: metadata_of_def)
  with r(4) have "redactedKeys_of target h' = redactedKeys_of target h @ [p]"
    by (simp add: redactedKeys_of_def)
  moreover from m have "(metadata_of target h')(REDACTED_KEY := None) =
                        (metadata_of target h)(REDACTED_KEY := None)"
    by simp
  ultimately show ?thesis using r(1) by blast
qed

text \<open>
  In the example the child prototype has no metadata of its own: the key is pushed onto
  the parent's array, so the parent shows the new key too.
\<close>

lemma redacted_example_heap:
  "\<exists>h'. redacted 1 ''token'' example_heap = Inr h' \<and>
         redactedKeys_of 1 h' = [''password'', ''token''] \<and>
         redactedKeys_of 0 h' = [''password'', ''token''] \<and>
         metadata_of 1 h' ''version'' = Some (Truthy ()) \<and>
         own_metadata h' (METADATA_KEY, 1) = Some 0"
  by (simp add: redacted_def example_heap_def Reflect_getMetadata_def Reflect_defineMetadata_def
                metadata_of_def redactedKeys_of_def METADATA_KEY_def REDACTED_KEY_def Let_def)

lemma redacted_example_new:
  "\<exists>h'. redacted 5 ''secret'' example_heap = Inr h' \<and>
         redactedKeys_of 5 h' = [''secret''] \<and>
         redactedKeys_of 0 h' = [''password'']"
  by (simp add: redacted_def example_heap_def Reflect_getMetadata_def Reflect_defineMetadata_def
                new_object_def new_array_def
                metadata_of_def redactedKeys_of_def METADATA_KEY_def REDACTED_KEY_def Let_def)

theorem redacted_appends_witness:
  "pushable (metadata_of 1 example_heap REDACTED_KEY) \<and>
   redactedKeys_of 1 example_heap = [''password''] \<and>
   (case redacted 1 ''token'' example_heap of
      Inl e \<Rightarrow> False
    | Inr h' \<Rightarrow>
        redactedKeys_of 1 h' = [''password'', ''token''] \<and>
        redactedKeys_of 0 h' = [''password'', ''token''] \<and>
        metadata_of 1 h' ''version'' = Some (Truthy ())) \<and>
   pushable (metadata_of 5 example_heap REDACTED_KEY) \<and>
   redactedKeys_of 5 example_heap = [] \<and>
   (case redacted 5 ''secret'' example_heap of
      Inl e \<Rightarrow> False
    | Inr h' \<Rightarrow> redactedKeys_of 5 h' = [''secret''])"
proof -
  have h1: "pushable (metadata_of 1 example_heap REDACTED_KEY)"
    by (simp add: pushable_def metadata_of_def Reflect_getMetadata_def example_heap_def
                  METADATA_KEY_def REDACTED_KEY_def)
  have h5: "pushable (metadata_of 5 example_heap REDACTED_KEY)"
    by (simp add: pushable_def metadata_of_def Reflect_getMetadata_def example_heap_def
                  METADATA_KEY_def REDACTED_KEY_def)
  have k1: "redactedKeys_of 1 example_heap = [''password'']"
    by (simp add: redactedKeys_of_def metadata_of_def Reflect_getMetadata_def example_heap_def
                  METADATA_KEY_def REDACTED_KEY_def)
  have k5: "redactedKeys_of 5 example_heap = []"
    by (simp add: redactedKeys_of_def metadata_of_def Reflect_getMetadata_def example_heap_def
                  METADATA_KEY_def REDACTED_KEY_def)
  from redacted_appends [OF h1, of "''token''"] redacted_appends [OF h5, of "''secret''"]
       redacted_example_heap redacted_example_new h1 h5 k1 k5
  show ?thesis by auto
qed

end
